theory Spec2Isabelle
  imports Complex_Main "HOL-Library.Word" "HOL-Library.Multiset"
    "HOL-Library.Char_ord" "HOL-Library.List_Lexorder"
begin

unbundle bit_operations_syntax

section \<open>JavaScript values and string primitives\<close>

text \<open>
  A JavaScript string is modelled as a \<^typ>\<open>string\<close>: each \<^typ>\<open>char\<close> stands for one
  code unit in the range 0..255.  Exceptions are values of \<open>error\<close>; a call that may throw
  returns \<open>error + 'a\<close> with \<open>Inl\<close> for the exception.
\<close>

datatype error = ExecError | FsError | TypeError

datatype jsval =
    JUndefined
  | JNull
  | JBool bool
  | JNum int
  | JStr string
  | JArr "jsval list"
  | JObj "(string \<times> jsval) list"

text \<open>\<open>String.prototype.trim\<close>: white space and line terminators among the code units 0..255.\<close>

definition is_js_space :: "char \<Rightarrow> bool" where
  "is_js_space c = (of_char c \<in> {9, 10, 11, 12, 13, 32, 160 :: nat})"

definition trim :: "string \<Rightarrow> string" where
  "trim s = rev (dropWhile is_js_space (rev (dropWhile is_js_space s)))"

text \<open>\<open>s.split(sep)\<close> for a non-empty separator \<open>sep\<close>.\<close>

function split_from :: "string \<Rightarrow> string \<Rightarrow> string \<Rightarrow> string list" where
  "split_from sep acc [] = [acc]"
| "split_from sep acc (c # cs) =
     (if sep \<noteq> [] \<and> take (length sep) (c # cs) = sep
      then acc # split_from sep [] (drop (length sep) (c # cs))
      else split_from sep (acc @ [c]) cs)"
  by pat_completeness auto
termination
  by (relation "measure (\<lambda>(sep, acc, s). length s)") auto

definition split :: "string \<Rightarrow> string \<Rightarrow> string list" where
  "split s sep = split_from sep [] s"

text \<open>\<open>xs[i]\<close> is \<open>undefined\<close> out of range, and \<open>v || ''\<close> replaces \<open>undefined\<close>
  and the empty string by the empty string.\<close>

definition nth_opt :: "'a list \<Rightarrow> nat \<Rightarrow> 'a option" where
  "nth_opt xs i = (if i < length xs then Some (xs ! i) else None)"

definition or_empty :: "string option \<Rightarrow> string" where
  "or_empty v = (case v of None \<Rightarrow> [] | Some s \<Rightarrow> if s = [] then [] else s)"

text \<open>\<open>s.substring(a, b)\<close> for non-negative integer arguments: both are clamped to the
  length and swapped when \<open>a > b\<close>.\<close>

definition substring :: "string \<Rightarrow> nat \<Rightarrow> nat \<Rightarrow> string" where
  "substring s a b =
     (let a' = min a (length s); b' = min b (length s);
          lo = min a' b'; hi = max a' b'
      in take (hi - lo) (drop lo s))"

text \<open>\<open>s.substring(a)\<close>, to the end of the string.\<close>

definition substring_from :: "string \<Rightarrow> nat \<Rightarrow> string" where
  "substring_from s a = drop a s"

text \<open>\<open>s.charAt(i)\<close>: the empty string out of range.\<close>

definition charAt :: "string \<Rightarrow> nat \<Rightarrow> string" where
  "charAt s i = (if i < length s then [s ! i] else [])"

text \<open>\<open>n.toString(radix)\<close> for a non-negative integer \<open>n\<close>.\<close>

definition digit_char :: "nat \<Rightarrow> char" where
  "digit_char d = ''0123456789abcdefghijklmnopqrstuvwxyz'' ! d"

function to_radix :: "nat \<Rightarrow> nat \<Rightarrow> string" where
  "to_radix b n =
     (if b < 2 \<or> n < b then [digit_char n]
      else to_radix b (n div b) @ [digit_char (n mod b)])"
  by pat_completeness auto
termination
  by (relation "measure (\<lambda>(b, n). n)") auto

definition show_int :: "int \<Rightarrow> string" where
  "show_int i = (if i < 0 then CHR ''-'' # to_radix 10 (nat (- i)) else to_radix 10 (nat i))"

definition join :: "string \<Rightarrow> string list \<Rightarrow> string" where
  "join sep xs = (case xs of [] \<Rightarrow> [] | y # ys \<Rightarrow> y @ concat (map (\<lambda>z. sep @ z) ys))"

section \<open>\<open>JSON.stringify\<close>\<close>

definition hex_digit :: "nat \<Rightarrow> char" where
  "hex_digit d = ''0123456789abcdef'' ! d"

definition json_escape :: "char \<Rightarrow> string" where
  "json_escape c =
     (let n = (of_char c :: nat) in
      if n = 34 then [CHR 0x5C, CHR 0x22]
      else if n = 92 then [CHR 0x5C, CHR 0x5C]
      else if n = 8 then [CHR 0x5C, CHR ''b'']
      else if n = 12 then [CHR 0x5C, CHR ''f'']
      else if n = 10 then [CHR 0x5C, CHR ''n'']
      else if n = 13 then [CHR 0x5C, CHR ''r'']
      else if n = 9 then [CHR 0x5C, CHR ''t'']
      else if n < 32 then [CHR 0x5C, CHR ''u'', CHR ''0'', CHR ''0'', hex_digit (n div 16), hex_digit (n mod 16)]
      else [c])"

definition json_quote :: "string \<Rightarrow> string" where
  "json_quote s = [CHR 0x22] @ concat (map json_escape s) @ [CHR 0x22]"

text \<open>
  Properties are serialised in insertion order (the keys used here are not array indices);
  a property whose value is \<open>undefined\<close> is left out, an \<open>undefined\<close> array element is
  written \<open>null\<close>.  Numbers are integers (counts and byte sizes, below \<open>10\<^sup>2\<^sup>1\<close>), which are
  written in decimal.
\<close>

fun JSON_stringify :: "jsval \<Rightarrow> string"
  and stringify_elems :: "jsval list \<Rightarrow> string list"
  and stringify_props :: "(string \<times> jsval) list \<Rightarrow> string list" where
  "JSON_stringify JUndefined = ''null''"
| "JSON_stringify JNull = ''null''"
| "JSON_stringify (JBool b) = (if b then ''true'' else ''false'')"
| "JSON_stringify (JNum n) = show_int n"
| "JSON_stringify (JStr s) = json_quote s"
| "JSON_stringify (JArr xs) = ''['' @ join '','' (stringify_elems xs) @ '']''"
| "JSON_stringify (JObj kvs) = ''{'' @ join '','' (stringify_props kvs) @ ''}''"
| "stringify_elems [] = []"
| "stringify_elems (x # xs) = JSON_stringify x # stringify_elems xs"
| "stringify_props [] = []"
| "stringify_props ((k, v) # kvs) =
     (if v = JUndefined then stringify_props kvs
      else (json_quote k @ '':'' @ JSON_stringify v) # stringify_props kvs)"

section \<open>SHA-256 and \<open>hashString\<close>\<close>

type_synonym w32 = "32 word"
type_synonym byte = "8 word"
type_synonym sha_state = "w32 \<times> w32 \<times> w32 \<times> w32 \<times> w32 \<times> w32 \<times> w32 \<times> w32"

text \<open>The round constants (the first 32 bits of the fractional parts of the cube roots
  of the first 64 primes) and the initial hash value (likewise for the square roots of the
  first 8 primes), in decimal.\<close>

definition K256 :: "w32 list" where
  "K256 =
    [1116352408, 1899447441, 3049323471, 3921009573, 961987163, 1508970993,
     2453635748, 2870763221, 3624381080, 310598401, 607225278, 1426881987,
     1925078388, 2162078206, 2614888103, 3248222580, 3835390401, 4022224774,
     264347078, 604807628, 770255983, 1249150122, 1555081692, 1996064986,
     2554220882, 2821834349, 2952996808, 3210313671, 3336571891, 3584528711,
     113926993, 338241895, 666307205, 773529912, 1294757372, 1396182291,
     1695183700, 1986661051, 2177026350, 2456956037, 2730485921, 2820302411,
     3259730800, 3345764771, 3516065817, 3600352804, 4094571909, 275423344,
     430227734, 506948616, 659060556, 883997877, 958139571, 1322822218,
     1537002063, 1747873779, 1955562222, 2024104815, 2227730452, 2361852424,
     2428436474, 2756734187, 3204031479, 3329325298]"

definition sha_init :: sha_state where
  "sha_init = (1779033703, 3144134277, 1013904242, 2773480762,
               1359893119, 2600822924, 528734635, 1541459225)"

definition rotr :: "nat \<Rightarrow> w32 \<Rightarrow> w32" where
  "rotr n x = drop_bit n x OR push_bit (32 - n) x"

definition Ch :: "w32 \<Rightarrow> w32 \<Rightarrow> w32 \<Rightarrow> w32" where
  "Ch x y z = (x AND y) XOR (NOT x AND z)"

definition Maj :: "w32 \<Rightarrow> w32 \<Rightarrow> w32 \<Rightarrow> w32" where
  "Maj x y z = (x AND y) XOR (x AND z) XOR (y AND z)"

definition Sigma0 :: "w32 \<Rightarrow> w32" where
  "Sigma0 x = rotr 2 x XOR rotr 13 x XOR rotr 22 x"

definition Sigma1 :: "w32 \<Rightarrow> w32" where
  "Sigma1 x = rotr 6 x XOR rotr 11 x XOR rotr 25 x"

definition sigma0 :: "w32 \<Rightarrow> w32" where
  "sigma0 x = rotr 7 x XOR rotr 18 x XOR drop_bit 3 x"

definition sigma1 :: "w32 \<Rightarrow> w32" where
  "sigma1 x = rotr 17 x XOR rotr 19 x XOR drop_bit 10 x"

text \<open>Padding: a one bit, zeros up to 56 modulo 64, and the bit length as 64 bits, big-endian.\<close>

definition be64 :: "nat \<Rightarrow> byte list" where
  "be64 n = map (\<lambda>i. of_nat (n div 2 ^ (8 * (7 - i)))) [0 ..< 8]"

definition sha_pad :: "byte list \<Rightarrow> byte list" where
  "sha_pad m =
     m @ [0x80] @ replicate ((64 - (length m + 9) mod 64) mod 64) 0 @ be64 (8 * length m)"

function blocks_of :: "nat \<Rightarrow> 'a list \<Rightarrow> 'a list list" where
  "blocks_of n xs = (if n = 0 \<or> xs = [] then [] else take n xs # blocks_of n (drop n xs))"
  by pat_completeness auto
termination
  by (relation "measure (\<lambda>(n, xs). length xs)") auto

definition be32 :: "byte list \<Rightarrow> w32" where
  "be32 bs = foldl (\<lambda>acc b. push_bit 8 acc OR ucast b) 0 bs"

fun schedule :: "nat \<Rightarrow> w32 list \<Rightarrow> w32 list" where
  "schedule 0 ws = ws"
| "schedule (Suc n) ws =
     schedule n (ws @ [sigma1 (ws ! (length ws - 2)) + ws ! (length ws - 7)
                       + sigma0 (ws ! (length ws - 15)) + ws ! (length ws - 16)])"

definition sha_round :: "w32 \<times> w32 \<Rightarrow> sha_state \<Rightarrow> sha_state" where
  "sha_round kw st =
     (case st of (a, b, c, d, e, f, g, h) \<Rightarrow>
        let t1 = h + Sigma1 e + Ch e f g + fst kw + snd kw;
            t2 = Sigma0 a + Maj a b c
        in (t1 + t2, a, b, c, d + t1, e, f, g))"

definition sha_compress :: "sha_state \<Rightarrow> byte list \<Rightarrow> sha_state" where
  "sha_compress st blk =
     (case st of (a, b, c, d, e, f, g, h) \<Rightarrow>
      case fold sha_round (zip K256 (schedule 48 (map be32 (blocks_of 4 blk)))) st of
        (a', b', c', d', e', f', g', h') \<Rightarrow>
          (a + a', b + b', c + c', d + d', e + e', f + f', g + g', h + h'))"

definition sha256 :: "byte list \<Rightarrow> sha_state" where
  "sha256 m = foldl sha_compress sha_init (blocks_of 64 (sha_pad m))"

definition hex_byte :: "nat \<Rightarrow> string" where
  "hex_byte n = [hex_digit (n div 16 mod 16), hex_digit (n mod 16)]"

definition hex_w32 :: "w32 \<Rightarrow> string" where
  "hex_w32 w = concat (map (\<lambda>i. hex_byte (unat w div 2 ^ (8 * (3 - i)) mod 256)) [0 ..< 4])"

definition digest_hex :: "sha_state \<Rightarrow> string" where
  "digest_hex st =
     (case st of (a, b, c, d, e, f, g, h) \<Rightarrow> concat (map hex_w32 [a, b, c, d, e, f, g, h]))"

text \<open>\<open>update(str)\<close> hashes the UTF-8 encoding of the string.\<close>

definition utf8_char :: "char \<Rightarrow> byte list" where
  "utf8_char c =
     (let n = (of_char c :: nat) in
      if n < 128 then [of_nat n] else [of_nat (192 + n div 64), of_nat (128 + n mod 64)])"

definition utf8 :: "string \<Rightarrow> byte list" where
  "utf8 s = concat (map utf8_char s)"

text \<open>\<open>crypto.createHash('sha256').update(str).digest('hex')\<close>\<close>

definition hashString :: "string \<Rightarrow> string" where
  "hashString str = digest_hex (sha256 (utf8 str))"

definition is_lower_hex :: "char \<Rightarrow> bool" where
  "is_lower_hex c = (c \<in> set ''0123456789abcdef'')"

definition is_digest :: "string \<Rightarrow> bool" where
  "is_digest s = (length s = 64 \<and> list_all is_lower_hex s)"


section \<open>The host: operating system, commands, file system\<close>

record cpu_info =
  model :: string
  speed :: nat

record net_address =
  mac :: string
  internal :: bool

text \<open>
  What the \<open>os\<close>, \<open>child_process\<close> and \<open>path\<close> modules answer on a machine.  The calls of
  \<open>os\<close> and \<open>path.join\<close> always answer; \<open>os_networkInterfaces\<close> lists the interfaces in
  enumeration order; \<open>execSync\<close> gives, for a command line, its output or the exception it
  throws.
\<close>

record host =
  os_platform :: string
  os_release :: string
  os_type :: string
  os_arch :: string
  os_cpus :: "cpu_info list"
  os_totalmem :: nat
  os_hostname :: string
  os_networkInterfaces :: "(string \<times> net_address list) list"
  os_homedir :: string
  execSync :: "string \<Rightarrow> error + string"
  path_join :: "string \<Rightarrow> string \<Rightarrow> string"

datatype event = OsCall string | Exec string | ConsoleError string

record file_entry =
  content :: string
  mode :: nat

text \<open>
  The mutable world: the files by path, the paths on which reading or writing throws, and
  the trace of introspection calls, spawned commands and logged errors.
\<close>

record world =
  files :: "string \<rightharpoonup> file_entry"
  read_fails :: "string \<Rightarrow> bool"
  write_fails :: "string \<Rightarrow> bool"
  trace :: "event list"

definition existsSync :: "world \<Rightarrow> string \<Rightarrow> bool" where
  "existsSync w p = (files w p \<noteq> None)"

definition readFileSync :: "world \<Rightarrow> string \<Rightarrow> error + string" where
  "readFileSync w p =
     (case files w p of
        None \<Rightarrow> Inl FsError
      | Some f \<Rightarrow> if read_fails w p then Inl FsError else Inr (content f))"

text \<open>
  \<open>writeFileSync(p, data, {mode: m})\<close>.  A write that throws is one that is refused when the
  file is opened (an unwritable directory or file): nothing is changed.  Otherwise the whole
  content is written; the mode is given to a file that is created (the process umask is not
  modelled) and an existing file keeps its own.
\<close>

definition writeFileSync :: "world \<Rightarrow> string \<Rightarrow> string \<Rightarrow> nat \<Rightarrow> error + world" where
  "writeFileSync w p data m =
     (if write_fails w p then Inl FsError
      else Inr (w\<lparr>files := (files w)(p \<mapsto>
             (case files w p of
                None \<Rightarrow> \<lparr>content = data, mode = m\<rparr>
              | Some f \<Rightarrow> f\<lparr>content := data\<rparr>))\<rparr>))"

definition log_error :: "string \<Rightarrow> world \<Rightarrow> world" where
  "log_error msg w = w\<lparr>trace := trace w @ [ConsoleError msg]\<rparr>"

section \<open>\<open>UniqueUserIDGenerator\<close>\<close>

record generator =
  userID :: "string option"
  storageFile :: string

text \<open>The generator that \<open>new UniqueUserIDGenerator()\<close> yields on a host, and the constructor
  call itself, which reads \<open>os.homedir()\<close>.\<close>

definition new_generator :: "host \<Rightarrow> generator" where
  "new_generator h = \<lparr>userID = None, storageFile = path_join h (os_homedir h) ''.unique_hw_id''\<rparr>"

definition construct :: "host \<Rightarrow> world \<Rightarrow> generator \<times> world" where
  "construct h w = (new_generator h, w\<lparr>trace := trace w @ [OsCall ''homedir'']\<rparr>)"

type_synonym fingerprint = "(string \<times> jsval) list"

text \<open>\<open>info.key = value\<close>\<close>

fun set_prop :: "string \<Rightarrow> jsval \<Rightarrow> fingerprint \<Rightarrow> fingerprint" where
  "set_prop k v [] = [(k, v)]"
| "set_prop k v (p # ps) = (if fst p = k then (k, v) # ps else p # set_prop k v ps)"

definition getNetworkMACs :: "host \<Rightarrow> string list" where
  "getNetworkMACs h =
     sort (concat (map (\<lambda>(iface, addrs).
             map mac (filter (\<lambda>details. \<not> internal details \<and> mac details \<noteq> ''00:00:00:00:00:00'') addrs))
           (os_networkInterfaces h)))"

definition universal_info :: "host \<Rightarrow> fingerprint" where
  "universal_info h =
     [(''platform'', JStr (os_platform h)),
      (''release'', JStr (os_release h)),
      (''type'', JStr (os_type h)),
      (''arch'', JStr (os_arch h)),
      (''cpus'', JNum (int (length (os_cpus h)))),
      (''cpuModel'', JStr (or_empty (map_option model (nth_opt (os_cpus h) 0)))),
      (''totalMemory'', JNum (int (os_totalmem h))),
      (''hostname'', JStr (os_hostname h)),
      (''networkInterfaces'', JArr (map JStr (getNetworkMACs h))),
      (''homedir'', JStr (os_homedir h))]"

definition universal_calls :: "event list" where
  "universal_calls = map OsCall
     [''platform'', ''release'', ''type'', ''arch'', ''cpus'', ''cpus'', ''totalmem'',
      ''hostname'', ''networkInterfaces'', ''homedir'']"

definition newline :: string where
  "newline = [CHR 0x0A]"

definition second_line :: "string \<Rightarrow> jsval" where
  "second_line out = JStr (or_empty (nth_opt (split (trim out) newline) 1))"

definition after_colon :: "string \<Rightarrow> jsval" where
  "after_colon out = JStr (or_empty (nth_opt (split (trim out) '': '') 1))"

definition wmic_diskdrive :: string where
  "wmic_diskdrive = ''wmic diskdrive get SerialNumber''"

definition wmic_bios :: string where
  "wmic_bios = ''wmic bios get SerialNumber''"

definition wmic_csproduct :: string where
  "wmic_csproduct = ''wmic csproduct get UUID''"

definition wmic_cpu :: string where
  "wmic_cpu = ''wmic cpu get ProcessorId''"

text \<open>The body of a \<open>try\<close> block with an empty \<open>catch\<close>: the first command that throws ends
  the block, and the properties set before it stay.  The second component lists the
  commands that were spawned.\<close>

definition probe_win32 :: "host \<Rightarrow> fingerprint \<Rightarrow> fingerprint \<times> event list" where
  "probe_win32 h info =
     (case execSync h wmic_diskdrive of
        Inl e \<Rightarrow> (info, [Exec wmic_diskdrive])
      | Inr diskSerial \<Rightarrow>
     let info1 = set_prop ''diskSerial'' (second_line diskSerial) info in
     (case execSync h wmic_bios of
        Inl e \<Rightarrow> (info1, [Exec wmic_diskdrive, Exec wmic_bios])
      | Inr biosSerial \<Rightarrow>
     let info2 = set_prop ''biosSerial'' (second_line biosSerial) info1 in
     (case execSync h wmic_csproduct of
        Inl e \<Rightarrow> (info2, [Exec wmic_diskdrive, Exec wmic_bios, Exec wmic_csproduct])
      | Inr motherboardUUID \<Rightarrow>
     let info3 = set_prop ''motherboardUUID'' (second_line motherboardUUID) info2 in
     (case execSync h wmic_cpu of
        Inl e \<Rightarrow> (info3, [Exec wmic_diskdrive, Exec wmic_bios, Exec wmic_csproduct, Exec wmic_cpu])
      | Inr cpuId \<Rightarrow>
        (set_prop ''cpuId'' (second_line cpuId) info3,
         [Exec wmic_diskdrive, Exec wmic_bios, Exec wmic_csproduct, Exec wmic_cpu])))))"

definition cat_product_uuid :: string where
  "cat_product_uuid = ''cat /sys/class/dmi/id/product_uuid 2>/dev/null''"

definition cat_board_serial :: string where
  "cat_board_serial = ''cat /sys/class/dmi/id/board_serial 2>/dev/null''"

definition grep_cpuinfo :: string where
  "grep_cpuinfo = ''cat /proc/cpuinfo | grep -m 1 \"physical id\" && cat /proc/cpuinfo | grep -m 1 \"serial\" && cat /proc/cpuinfo | grep -m 1 \"Hardware\"''"

definition lsblk_root :: string where
  "lsblk_root = ''lsblk -no UUID $(findmnt -n -o SOURCE /)''"

definition probe_linux :: "host \<Rightarrow> fingerprint \<Rightarrow> fingerprint \<times> event list" where
  "probe_linux h info =
     (case execSync h cat_product_uuid of
        Inl e \<Rightarrow> (info, [Exec cat_product_uuid])
      | Inr systemUUID \<Rightarrow>
     let info1 = set_prop ''systemUUID'' (JStr (trim systemUUID)) info in
     (case execSync h cat_board_serial of
        Inl e \<Rightarrow> (info1, [Exec cat_product_uuid, Exec cat_board_serial])
      | Inr motherboardSerial \<Rightarrow>
     let info2 = set_prop ''motherboardSerial'' (JStr (trim motherboardSerial)) info1 in
     (case execSync h grep_cpuinfo of
        Inl e \<Rightarrow> (info2, [Exec cat_product_uuid, Exec cat_board_serial, Exec grep_cpuinfo])
      | Inr cpuInfo \<Rightarrow>
     let info3 = set_prop ''cpuDetails'' (JStr (trim cpuInfo)) info2 in
     (case execSync h lsblk_root of
        Inl e \<Rightarrow> (info3, [Exec cat_product_uuid, Exec cat_board_serial, Exec grep_cpuinfo, Exec lsblk_root])
      | Inr diskInfo \<Rightarrow>
        (set_prop ''mainDiskUUID'' (JStr (trim diskInfo)) info3,
         [Exec cat_product_uuid, Exec cat_board_serial, Exec grep_cpuinfo, Exec lsblk_root])))))"

definition profiler_uuid :: string where
  "profiler_uuid = ''system_profiler SPHardwareDataType | grep \"Hardware UUID\"''"

definition profiler_serial :: string where
  "profiler_serial = ''system_profiler SPHardwareDataType | grep \"Serial Number\"''"

definition profiler_model :: string where
  "profiler_model = ''system_profiler SPHardwareDataType | grep \"Model Identifier\"''"

definition probe_darwin :: "host \<Rightarrow> fingerprint \<Rightarrow> fingerprint \<times> event list" where
  "probe_darwin h info =
     (case execSync h profiler_uuid of
        Inl e \<Rightarrow> (info, [Exec profiler_uuid])
      | Inr hardwareUUIDOutput \<Rightarrow>
     let info1 = set_prop ''hardwareUUID'' (after_colon hardwareUUIDOutput) info in
     (case execSync h profiler_serial of
        Inl e \<Rightarrow> (info1, [Exec profiler_uuid, Exec profiler_serial])
      | Inr serialNumberOutput \<Rightarrow>
     let info2 = set_prop ''serialNumber'' (after_colon serialNumberOutput) info1 in
     (case execSync h profiler_model of
        Inl e \<Rightarrow> (info2, [Exec profiler_uuid, Exec profiler_serial, Exec profiler_model])
      | Inr modelOutput \<Rightarrow>
        (set_prop ''modelIdentifier'' (after_colon modelOutput) info2,
         [Exec profiler_uuid, Exec profiler_serial, Exec profiler_model]))))"

text \<open>\<open>getSystemInfo()\<close>: the fingerprint and the calls made to collect it.\<close>

definition getSystemInfo :: "host \<Rightarrow> fingerprint \<times> event list" where
  "getSystemInfo h =
     (let info = universal_info h;
          (info_w, ev_w) =
             (if os_platform h = ''win32'' then probe_win32 h info else (info, []));
          (info_l, ev_l) =
             (if os_platform h = ''linux'' then probe_linux h info_w else (info_w, []));
          (info_d, ev_d) =
             (if os_platform h = ''darwin'' then probe_darwin h info_l else (info_l, []))
      in (info_d,
          universal_calls @ [OsCall ''platform''] @ ev_w @ [OsCall ''platform''] @ ev_l
            @ [OsCall ''platform''] @ ev_d))"

text \<open>\<open>generateID()\<close>: the identifier returned, the generator and the world after the call.
  The mode \<open>0o600\<close> is 384.\<close>

definition generateID :: "generator \<Rightarrow> host \<Rightarrow> world \<Rightarrow> string \<times> generator \<times> world" where
  "generateID g h w =
     (case (if existsSync w (storageFile g)
            then map_sum id Some (readFileSync w (storageFile g))
            else Inr None) of
        Inr (Some stored) \<Rightarrow> (stored, g\<lparr>userID := Some stored\<rparr>, w)
      | r \<Rightarrow>
        let w1 = (case r of Inl e \<Rightarrow> log_error ''Error leyendo ID almacenado:'' w | _ \<Rightarrow> w);
            (systemInfo, calls) = getSystemInfo h;
            w2 = w1\<lparr>trace := trace w1 @ calls\<rparr>;
            infoString = JSON_stringify (JObj systemInfo);
            uid = hashString infoString;
            g' = g\<lparr>userID := Some uid\<rparr>
        in (case writeFileSync w2 (storageFile g) uid 384 of
              Inl e \<Rightarrow> (uid, g', log_error ''Error al guardar ID en archivo:'' w2)
            | Inr w3 \<Rightarrow> (uid, g', w3)))"

definition verifyID :: "generator \<Rightarrow> world \<Rightarrow> bool \<times> world" where
  "verifyID g w =
     (if \<not> existsSync w (storageFile g) then (False, w)
      else case readFileSync w (storageFile g) of
             Inl e \<Rightarrow> (False, log_error ''Error verificando ID:'' w)
           | Inr storedID \<Rightarrow> if storedID = [] then (False, w) else (True, w))"

definition getUniqueUserID :: "host \<Rightarrow> world \<Rightarrow> string \<times> world" where
  "getUniqueUserID h w =
     (case construct h w of
        (generator, w0) \<Rightarrow> (case generateID generator h w0 of (uid, g, w') \<Rightarrow> (uid, w')))"

section \<open>\<open>GenerateID\<close>\<close>

record id_generator =
  maxLength :: int
  minLength :: int

text \<open>\<open>new GenerateID({maxLength})\<close>: \<open>options.maxLength || 8\<close>, for an integer or missing
  \<open>maxLength\<close>.\<close>

definition new_GenerateID :: "int option \<Rightarrow> id_generator" where
  "new_GenerateID maxLength_opt =
     \<lparr>maxLength = (case maxLength_opt of None \<Rightarrow> 8 | Some n \<Rightarrow> if n = 0 then 8 else n),
      minLength = 4\<rparr>"

record gen_options =
  includeTimestamp :: "bool option"
  includeSpecialChars :: "bool option"
  useUppercase :: "bool option"

text \<open>
  The sources of entropy: the value of the \<open>i\<close>-th call of \<open>Math.random()\<close> (a double in
  \<open>[0, 1)\<close>, given by its exact value),
  of \<open>Date.now()\<close>, and of \<open>crypto.getRandomValues\<close> on one byte, when \<open>crypto\<close> is
  defined.  \<open>draws\<close> counts the calls made so far.
\<close>

record entropy =
  math_random :: "nat \<Rightarrow> real"
  date_now :: "nat \<Rightarrow> nat"
  crypto_random :: "(nat \<Rightarrow> byte) option"

record draws =
  n_random :: nat
  n_now :: nat
  n_crypto :: nat

text \<open>
  \<open>Math.floor(r * n)\<close> for a double \<open>r\<close> and an integer \<open>n\<close>: the product is a double, the
  exact product rounded to 53 significant bits, ties to the even significand, and the floor
  is taken of that double.  Below 1 in absolute value only the rounding up to 1 matters.
\<close>

definition round_half_even :: "real \<Rightarrow> int" where
  "round_half_even y =
     (let q = \<lfloor>y\<rfloor>; f = y - of_int q
      in if f < 1 / 2 then q else if 1 / 2 < f then q + 1 else if even q then q else q + 1)"

function bit_length :: "nat \<Rightarrow> nat" where
  "bit_length n = (if n = 0 then 0 else Suc (bit_length (n div 2)))"
  by pat_completeness auto
termination
  by (relation "measure (\<lambda>n. n)") auto

definition js_floor_product :: "real \<Rightarrow> int \<Rightarrow> int" where
  "js_floor_product r n =
     (let x = r * of_int n; a = \<bar>x\<bar>
      in if a < 1 then (if 1 - 1 / 2 ^ 54 \<le> x then 1 else if 0 \<le> x then 0 else - 1)
         else let L = bit_length (nat \<lfloor>a\<rfloor>);
                  q = round_half_even (a * 2 ^ 53 / 2 ^ L);
                  mag = real_of_int q * 2 ^ L / 2 ^ 53
              in if 0 < x then \<lfloor>mag\<rfloor> else \<lfloor>- mag\<rfloor>)"

text \<open>The loop \<open>for (i = 0; i < finalLength; i++) id += chars.charAt(...)\<close>, with \<open>k\<close> the
  index of the next call of \<open>Math.random()\<close>.\<close>

fun random_chars :: "entropy \<Rightarrow> string \<Rightarrow> nat \<Rightarrow> nat \<Rightarrow> string" where
  "random_chars E chars k 0 = []"
| "random_chars E chars k (Suc n) =
     charAt chars (nat (js_floor_product (math_random E k) (int (length chars))))
       @ random_chars E chars (Suc k) n"

definition generate :: "id_generator \<Rightarrow> entropy \<Rightarrow> gen_options \<Rightarrow> draws \<Rightarrow> string \<times> draws" where
  "generate g E options d =
     (let withTimestamp = (case includeTimestamp options of None \<Rightarrow> True | Some b \<Rightarrow> b);
          withSpecialChars = (case includeSpecialChars options of None \<Rightarrow> False | Some b \<Rightarrow> b);
          withUppercase = (case useUppercase options of None \<Rightarrow> True | Some b \<Rightarrow> b);
          chars0 = ''abcdefghijklmnopqrstuvwxyz0123456789'';
          chars1 = (if withUppercase then chars0 @ ''ABCDEFGHIJKLMNOPQRSTUVWXYZ'' else chars0);
          chars = (if withSpecialChars then chars1 @ ''_-.$#@!%&'' else chars1);
          finalLength = max (minLength g)
             (min (maxLength g)
                (js_floor_product (math_random E (n_random d)) (maxLength g) + minLength g));
          id0 = random_chars E chars (Suc (n_random d)) (nat finalLength);
          d1 = d\<lparr>n_random := Suc (n_random d) + nat finalLength\<rparr>;
          (id1, d2) =
            (if withTimestamp then
               let timestamp = to_radix 36 (date_now E (n_now d1))
               in (substring id0 0 (nat (finalLength div 2))
                     @ substring_from timestamp (length timestamp - 3)
                     @ substring id0 (nat (finalLength div 2)) (nat (finalLength - 3)),
                   d1\<lparr>n_now := Suc (n_now d1)\<rparr>)
             else (id0, d1))
      in case crypto_random E of
           None \<Rightarrow> (id1, d2)
         | Some getRandomValues \<Rightarrow>
             let additionalChar = charAt chars (unat (getRandomValues (n_crypto d2)) mod length chars)
             in (additionalChar @ substring id1 0 (length id1 - 1),
                 d2\<lparr>n_crypto := Suc (n_crypto d2)\<rparr>))"

text \<open>
  \<open>item[key]\<close>: a \<open>TypeError\<close> on \<open>undefined\<close> and \<open>null\<close>.  Inherited properties are
  methods, which no string is \<open>===\<close> to; they read as \<open>undefined\<close> here.
\<close>

definition is_digit :: "char \<Rightarrow> bool" where
  "is_digit c = (48 \<le> (of_char c :: nat) \<and> (of_char c :: nat) \<le> 57)"

definition digits_value :: "string \<Rightarrow> nat" where
  "digits_value s = foldl (\<lambda>acc c. 10 * acc + (of_char c - 48)) 0 s"

definition array_index :: "string \<Rightarrow> nat option" where
  "array_index k =
     (if k \<noteq> [] \<and> list_all is_digit k \<and> to_radix 10 (digits_value k) = k
      then Some (digits_value k) else None)"

fun get_prop :: "jsval \<Rightarrow> string \<Rightarrow> error + jsval" where
  "get_prop JUndefined k = Inl TypeError"
| "get_prop JNull k = Inl TypeError"
| "get_prop (JObj props) k = Inr (case map_of props k of None \<Rightarrow> JUndefined | Some v \<Rightarrow> v)"
| "get_prop (JArr items) k =
     Inr (if k = ''length'' then JNum (int (length items))
          else case array_index k of
                 None \<Rightarrow> JUndefined
               | Some i \<Rightarrow> (case nth_opt items i of None \<Rightarrow> JUndefined | Some v \<Rightarrow> v))"
| "get_prop (JStr s) k =
     Inr (if k = ''length'' then JNum (int (length s))
          else case array_index k of
                 None \<Rightarrow> JUndefined
               | Some i \<Rightarrow> (case nth_opt s i of None \<Rightarrow> JUndefined | Some c \<Rightarrow> JStr [c]))"
| "get_prop (JBool b) k = Inr JUndefined"
| "get_prop (JNum n) k = Inr JUndefined"

text \<open>\<open>typeof v === 'object'\<close>\<close>

fun typeof_object :: "jsval \<Rightarrow> bool" where
  "typeof_object JNull = True"
| "typeof_object (JArr items) = True"
| "typeof_object (JObj props) = True"
| "typeof_object v = False"

fun truthy :: "jsval \<Rightarrow> bool" where
  "truthy JUndefined = False"
| "truthy JNull = False"
| "truthy (JBool b) = b"
| "truthy (JNum n) = (n \<noteq> 0)"
| "truthy (JStr s) = (s \<noteq> [])"
| "truthy v = True"

text \<open>\<open>items.some(item => item[idField] === id)\<close>\<close>

fun some_field_is :: "jsval list \<Rightarrow> string \<Rightarrow> string \<Rightarrow> error + bool" where
  "some_field_is [] idField ident = Inr False"
| "some_field_is (item # items) idField ident =
     (case get_prop item idField of
        Inl e \<Rightarrow> Inl e
      | Inr v \<Rightarrow> if v = JStr ident then Inr True else some_field_is items idField ident)"

definition exists :: "string \<Rightarrow> jsval \<Rightarrow> string \<Rightarrow> error + bool" where
  "exists ident collection idField =
     (case collection of
        JArr items \<Rightarrow>
          if typeof_object (case nth_opt items 0 of None \<Rightarrow> JUndefined | Some v \<Rightarrow> v)
          then some_field_is items idField ident
          else Inr (List.member items (JStr ident))
      | JObj props \<Rightarrow>
          Inr (List.member (map fst props) ident \<or>
               list_ex (\<lambda>item. truthy item \<and> typeof_object item \<and>
                                get_prop item idField = Inr (JStr ident)) (map snd props))
      | JNull \<Rightarrow> Inl TypeError
      | _ \<Rightarrow> Inr False)"

text \<open>The \<open>do ... while\<close> loop of \<open>generateUnique\<close>, with \<open>maxAttempts = 100\<close>.\<close>

function attempt_loop ::
  "id_generator \<Rightarrow> entropy \<Rightarrow> jsval \<Rightarrow> gen_options \<Rightarrow> string \<Rightarrow> nat \<Rightarrow> draws
     \<Rightarrow> error + (string \<times> nat \<times> draws)" where
  "attempt_loop g E collection options idField attempts d =
     (case exists (fst (generate g E options d)) collection idField of
        Inl e \<Rightarrow> Inl e
      | Inr found \<Rightarrow>
          if found \<and> attempts + 1 < 100
          then attempt_loop g E collection options idField (attempts + 1) (snd (generate g E options d))
          else Inr (fst (generate g E options d), attempts + 1, snd (generate g E options d)))"
  by pat_completeness auto
termination
  by (relation "measure (\<lambda>(g, E, collection, options, idField, attempts, d). 100 - attempts)") auto

definition generateUnique ::
  "id_generator \<Rightarrow> entropy \<Rightarrow> jsval \<Rightarrow> gen_options \<Rightarrow> string \<Rightarrow> draws
     \<Rightarrow> error + (string \<times> id_generator \<times> draws)" where
  "generateUnique g E collection options idField d =
     (case attempt_loop g E collection options idField 0 d of
        Inl e \<Rightarrow> Inl e
      | Inr (newId, attempts, d') \<Rightarrow>
          if attempts \<ge> 100 then
            let g' = g\<lparr>maxLength := maxLength g + 2\<rparr>
            in Inr (fst (generate g' E options d'), g', snd (generate g' E options d'))
          else Inr (newId, g, d'))"

section \<open>Vocabulary of the properties\<close>

text \<open>The digest of the fingerprint collected on a host now.\<close>

definition fresh_digest :: "host \<Rightarrow> string" where
  "fresh_digest h = hashString (JSON_stringify (JObj (fst (getSystemInfo h))))"

definition universal_fields :: "string list" where
  "universal_fields =
     [''platform'', ''release'', ''type'', ''arch'', ''cpus'', ''cpuModel'', ''totalMemory'',
      ''hostname'', ''networkInterfaces'', ''homedir'']"

text \<open>The commands of a platform's \<open>try\<close> block, in the order the block runs them, and the
  property each one sets.\<close>

definition probe_commands :: "string \<Rightarrow> string list" where
  "probe_commands platform =
     (if platform = ''win32'' then [wmic_diskdrive, wmic_bios, wmic_csproduct, wmic_cpu]
      else if platform = ''linux'' then [cat_product_uuid, cat_board_serial, grep_cpuinfo, lsblk_root]
      else if platform = ''darwin'' then [profiler_uuid, profiler_serial, profiler_model]
      else [])"

definition probe_fields :: "string \<Rightarrow> string list" where
  "probe_fields platform =
     (if platform = ''win32'' then [''diskSerial'', ''biosSerial'', ''motherboardUUID'', ''cpuId'']
      else if platform = ''linux'' then [''systemUUID'', ''motherboardSerial'', ''cpuDetails'', ''mainDiskUUID'']
      else if platform = ''darwin'' then [''hardwareUUID'', ''serialNumber'', ''modelIdentifier'']
      else [])"

definition succeeds :: "host \<Rightarrow> string \<Rightarrow> bool" where
  "succeeds h cmd = (case execSync h cmd of Inl e \<Rightarrow> False | Inr out \<Rightarrow> True)"

text \<open>How many commands run before the first one that throws.\<close>

definition leading_successes :: "host \<Rightarrow> string list \<Rightarrow> nat" where
  "leading_successes h cmds = length (takeWhile (succeeds h) cmds)"

section \<open>Example hosts and worlds\<close>

text \<open>A Linux machine without CPUs reported, on which reading the DMI product UUID is
  refused and every other command answers.\<close>

definition linux_host :: host where
  "linux_host =
     \<lparr>os_platform = ''linux'', os_release = ''6.1.0'', os_type = ''Linux'', os_arch = ''x64'',
      os_cpus = [], os_totalmem = 8589934592, os_hostname = ''box'',
      os_networkInterfaces =
        [(''lo'', [\<lparr>mac = ''00:00:00:00:00:00'', internal = True\<rparr>]),
         (''eth0'', [\<lparr>mac = ''52:54:00:12:34:56'', internal = False\<rparr>]),
         (''wlan0'', [\<lparr>mac = ''02:42:ac:11:00:02'', internal = False\<rparr>])],
      os_homedir = ''/home/user'',
      execSync = (\<lambda>cmd. if cmd = cat_product_uuid then Inl ExecError else Inr ''X1''),
      path_join = (\<lambda>a b. a @ ''/'' @ b)\<rparr>"

definition linux_generator :: generator where
  "linux_generator = new_generator linux_host"

definition stored_file :: "string \<Rightarrow> string \<rightharpoonup> file_entry" where
  "stored_file c = [''/home/user/.unique_hw_id'' \<mapsto> \<lparr>content = c, mode = 384\<rparr>]"

definition world_absent :: world where
  "world_absent =
     \<lparr>files = Map.empty, read_fails = (\<lambda>p. False), write_fails = (\<lambda>p. False), trace = []\<rparr>"

definition world_stored :: world where
  "world_stored =
     \<lparr>files = stored_file ''abc123'', read_fails = (\<lambda>p. False), write_fails = (\<lambda>p. False),
      trace = []\<rparr>"

definition world_empty_file :: world where
  "world_empty_file =
     \<lparr>files = stored_file [], read_fails = (\<lambda>p. False), write_fails = (\<lambda>p. False), trace = []\<rparr>"

definition world_unreadable :: world where
  "world_unreadable =
     \<lparr>files = stored_file ''abc123'', read_fails = (\<lambda>p. True), write_fails = (\<lambda>p. False),
      trace = []\<rparr>"


definition world_broken :: world where
  "world_broken =
     \<lparr>files = stored_file ''abc123'', read_fails = (\<lambda>p. True), write_fails = (\<lambda>p. True),
      trace = []\<rparr>"

text \<open>The canonical string of the fingerprint of \<open>linux_host\<close>, and the blocks of its
  padded UTF-8 encoding.\<close>

definition linux_canonical :: string where
  \<open>linux_canonical =
     ''{"platform":"linux","release":"6.1.0","type":"Linux","arch":"x64","cpus":0,"cpuModel":"","totalMemory":8589934592,"hostname":"box","networkInterfaces":["02:42:ac:11:00:02","52:54:00:12:34:56"],"homedir":"/home/user"}''\<close>

definition linux_block_1 :: "byte list" where
  "linux_block_1 =
     [123, 34, 112, 108, 97, 116, 102, 111, 114, 109, 34, 58, 34, 108, 105, 110,
      117, 120, 34, 44, 34, 114, 101, 108, 101, 97, 115, 101, 34, 58, 34, 54,
      46, 49, 46, 48, 34, 44, 34, 116, 121, 112, 101, 34, 58, 34, 76, 105,
      110, 117, 120, 34, 44, 34, 97, 114, 99, 104, 34, 58, 34, 120, 54, 52]"

definition linux_block_2 :: "byte list" where
  "linux_block_2 =
     [34, 44, 34, 99, 112, 117, 115, 34, 58, 48, 44, 34, 99, 112, 117, 77,
      111, 100, 101, 108, 34, 58, 34, 34, 44, 34, 116, 111, 116, 97, 108, 77,
      101, 109, 111, 114, 121, 34, 58, 56, 53, 56, 57, 57, 51, 52, 53, 57,
      50, 44, 34, 104, 111, 115, 116, 110, 97, 109, 101, 34, 58, 34, 98, 111]"

definition linux_block_3 :: "byte list" where
  "linux_block_3 =
     [120, 34, 44, 34, 110, 101, 116, 119, 111, 114, 107, 73, 110, 116, 101, 114,
      102, 97, 99, 101, 115, 34, 58, 91, 34, 48, 50, 58, 52, 50, 58, 97,
      99, 58, 49, 49, 58, 48, 48, 58, 48, 50, 34, 44, 34, 53, 50, 58,
      53, 52, 58, 48, 48, 58, 49, 50, 58, 51, 52, 58, 53, 54, 34, 93]"

definition linux_block_4 :: "byte list" where
  "linux_block_4 =
     [44, 34, 104, 111, 109, 101, 100, 105, 114, 34, 58, 34, 47, 104, 111, 109,
      101, 47, 117, 115, 101, 114, 34, 125, 128, 0, 0, 0, 0, 0, 0, 0,
      0, 0, 0, 0, 0, 0, 0, 0, 0, 0, 0, 0, 0, 0, 0, 0,
      0, 0, 0, 0, 0, 0, 0, 0, 0, 0, 0, 0, 0, 0, 6, 192]"


text \<open>Entropy sources that give the same answer at every call: \<open>Math.random()\<close> is 0, the
  clock stands at one millisecond, the random byte is 0.\<close>

definition constant_entropy :: entropy where
  "constant_entropy =
     \<lparr>math_random = (\<lambda>i. 0), date_now = (\<lambda>i. 1730000000000), crypto_random = Some (\<lambda>i. 0)\<rparr>"

definition default_options :: gen_options where
  "default_options = \<lparr>includeTimestamp = None, includeSpecialChars = None, useUppercase = None\<rparr>"

definition no_draws :: draws where
  "no_draws = \<lparr>n_random = 0, n_now = 0, n_crypto = 0\<rparr>"

section \<open>Evaluation rules\<close>

declare to_radix.simps [simp del]
declare blocks_of.simps [simp del]
declare attempt_loop.simps [simp del]
declare bit_length.simps [simp del]

section \<open>The digest is 64 lower-case hexadecimal characters\<close>

lemma hex_digit_lower: "d < 16 \<Longrightarrow> is_lower_hex (hex_digit d)"
proof -
  assume "d < 16"
  then have "d < length ''0123456789abcdef''" by simp
  then have "''0123456789abcdef'' ! d \<in> set ''0123456789abcdef''" by (rule nth_mem)
  then show ?thesis unfolding is_lower_hex_def hex_digit_def .
qed

lemma length_hex_byte: "length (hex_byte n) = 2"
  by (simp add: hex_byte_def)

lemma lower_hex_byte: "list_all is_lower_hex (hex_byte n)"
  by (simp add: hex_byte_def hex_digit_lower)

lemma upt_4: "[0 ..< 4] = [0, 1, 2, 3]"
  by (simp add: upt_rec)

lemma length_hex_w32: "length (hex_w32 x) = 8"
  by (simp add: hex_w32_def upt_4 length_hex_byte)

lemma lower_hex_w32: "list_all is_lower_hex (hex_w32 x)"
  by (simp add: hex_w32_def upt_4 lower_hex_byte)

lemma length_digest_hex: "length (digest_hex st) = 64"
  by (simp add: digest_hex_def length_hex_w32 split: prod.splits)

lemma lower_digest_hex: "list_all is_lower_hex (digest_hex st)"
  by (simp add: digest_hex_def lower_hex_w32 split: prod.splits)

lemma hashString_is_digest: "is_digest (hashString str)"
  by (simp add: is_digest_def hashString_def length_digest_hex lower_digest_hex)

lemma fresh_digest_is_digest: "is_digest (fresh_digest h)"
  by (simp add: fresh_digest_def hashString_is_digest)

lemma digest_not_empty: "is_digest s \<Longrightarrow> s \<noteq> []"
  by (auto simp: is_digest_def)

section \<open>The file system primitives\<close>

lemma read_ok_exists: "readFileSync w p = Inr c \<Longrightarrow> existsSync w p"
  by (auto simp: readFileSync_def existsSync_def split: option.splits)

lemma read_ok_iff:
  "readFileSync w p = Inr c \<longleftrightarrow> (\<exists>f. files w p = Some f \<and> content f = c \<and> \<not> read_fails w p)"
  by (auto simp: readFileSync_def split: option.splits)


lemma read_error_cases:
  "readFileSync w p = Inl e \<longleftrightarrow> e = FsError \<and> (files w p = None \<or> read_fails w p)"
  by (auto simp: readFileSync_def split: option.splits)

section \<open>\<open>generateID\<close>, branch by branch\<close>

lemma generateID_stored:
  assumes "readFileSync w (storageFile g) = Inr c"
  shows "generateID g h w = (c, g\<lparr>userID := Some c\<rparr>, w)"
proof -
  from assms have "existsSync w (storageFile g)"
    by (rule read_ok_exists)
  with assms show ?thesis
    by (simp add: generateID_def)
qed

text \<open>The world in which the identifier is written: after the read error, if any, is
  logged and the fingerprint collected.\<close>

lemma generateID_computed:
  assumes "readFileSync w (storageFile g) = Inl e"
  shows "\<exists>w2. files w2 = files w \<and> write_fails w2 = write_fails w \<and> read_fails w2 = read_fails w
           \<and> (\<not> existsSync w (storageFile g) \<longrightarrow> trace w2 = trace w @ snd (getSystemInfo h))
           \<and> generateID g h w =
               (fresh_digest h, g\<lparr>userID := Some (fresh_digest h)\<rparr>,
                case writeFileSync w2 (storageFile g) (fresh_digest h) 384 of
                  Inl e' \<Rightarrow> log_error ''Error al guardar ID en archivo:'' w2
                | Inr w3 \<Rightarrow> w3)"
proof (cases "existsSync w (storageFile g)")
  case True
  let ?w1 = "log_error ''Error leyendo ID almacenado:'' w"
  let ?w2 = "?w1\<lparr>trace := trace ?w1 @ snd (getSystemInfo h)\<rparr>"
  have "generateID g h w =
      (fresh_digest h, g\<lparr>userID := Some (fresh_digest h)\<rparr>,
       case writeFileSync ?w2 (storageFile g) (fresh_digest h) 384 of
         Inl e' \<Rightarrow> log_error ''Error al guardar ID en archivo:'' ?w2
       | Inr w3 \<Rightarrow> w3)"
    using True assms
    by (simp add: generateID_def fresh_digest_def Let_def split: prod.splits sum.splits)
  moreover have "files ?w2 = files w \<and> write_fails ?w2 = write_fails w \<and> read_fails ?w2 = read_fails w"
    by (simp add: log_error_def)
  ultimately show ?thesis using True by blast
next
  case False
  let ?w2 = "w\<lparr>trace := trace w @ snd (getSystemInfo h)\<rparr>"
  have "generateID g h w =
      (fresh_digest h, g\<lparr>userID := Some (fresh_digest h)\<rparr>,
       case writeFileSync ?w2 (storageFile g) (fresh_digest h) 384 of
         Inl e' \<Rightarrow> log_error ''Error al guardar ID en archivo:'' ?w2
       | Inr w3 \<Rightarrow> w3)"
    using False
    by (simp add: generateID_def fresh_digest_def Let_def split: prod.splits sum.splits)
  moreover have "files ?w2 = files w \<and> write_fails ?w2 = write_fails w \<and> read_fails ?w2 = read_fails w
      \<and> trace ?w2 = trace w @ snd (getSystemInfo h)"
    by simp
  ultimately show ?thesis by blast
qed

lemma generateID_fresh:
  assumes "readFileSync w (storageFile g) = Inl e"
  shows "fst (generateID g h w) = fresh_digest h"
  using generateID_computed [OF assms, of h] by auto

lemma generateID_storageFile: "storageFile (fst (snd (generateID g h w))) = storageFile g"
proof (cases "readFileSync w (storageFile g)")
  case (Inl e)
  from generateID_computed [OF Inl, of h] show ?thesis by auto
next
  case (Inr c)
  then show ?thesis by (simp add: generateID_stored)
qed

lemma generateID_flags:
  "read_fails (snd (snd (generateID g h w))) = read_fails w \<and>
   write_fails (snd (snd (generateID g h w))) = write_fails w"
proof (cases "readFileSync w (storageFile g)")
  case (Inl e)
  from generateID_computed [OF Inl, of h] show ?thesis
    by (auto simp: writeFileSync_def log_error_def split: if_splits)
next
  case (Inr c)
  then show ?thesis by (simp add: generateID_stored)
qed

lemma generateID_write_ok:
  assumes "readFileSync w (storageFile g) = Inl e" and "\<not> write_fails w (storageFile g)"
  shows "files (snd (snd (generateID g h w))) =
           (files w)(storageFile g \<mapsto>
              (case files w (storageFile g) of
                 None \<Rightarrow> \<lparr>content = fresh_digest h, mode = 384\<rparr>
               | Some f \<Rightarrow> f\<lparr>content := fresh_digest h\<rparr>))"
  using generateID_computed [OF assms(1), of h] assms(2)
  by (auto simp: writeFileSync_def)

lemma generateID_write_failed:
  assumes "readFileSync w (storageFile g) = Inl e" and "write_fails w (storageFile g)"
  shows "files (snd (snd (generateID g h w))) = files w"
  using generateID_computed [OF assms(1), of h] assms(2)
  by (auto simp: writeFileSync_def log_error_def)

lemma linux_home_path:
  "path_join linux_host (os_homedir linux_host) ''.unique_hw_id'' = ''/home/user/.unique_hw_id''"
  unfolding linux_host_def by simp

lemma linux_storageFile: "storageFile linux_generator = ''/home/user/.unique_hw_id''"
  unfolding linux_generator_def new_generator_def by (simp add: linux_home_path)

section \<open>The fingerprint's fields\<close>

lemma set_prop_keys:
  "map fst (set_prop k v ps) = (if k \<in> set (map fst ps) then map fst ps else map fst ps @ [k])"
  by (induction ps) auto

lemma set_prop_new: "k \<notin> set (map fst ps) \<Longrightarrow> set_prop k v ps = ps @ [(k, v)]"
  by (induction ps) auto

lemma universal_keys: "map fst (universal_info h) = universal_fields"
  by (simp add: universal_info_def universal_fields_def)

lemma probe_win32_keys:
  assumes "set (map fst info) \<inter> set (probe_fields ''win32'') = {}"
  shows "map fst (fst (probe_win32 h info)) =
     map fst info @ take (leading_successes h (probe_commands ''win32'')) (probe_fields ''win32'')"
  using assms
  by (simp add: probe_win32_def set_prop_keys probe_commands_def probe_fields_def
      leading_successes_def succeeds_def Let_def split: sum.splits)

lemma probe_linux_keys:
  assumes "set (map fst info) \<inter> set (probe_fields ''linux'') = {}"
  shows "map fst (fst (probe_linux h info)) =
     map fst info @ take (leading_successes h (probe_commands ''linux'')) (probe_fields ''linux'')"
  using assms
  by (simp add: probe_linux_def set_prop_keys probe_commands_def probe_fields_def
      leading_successes_def succeeds_def Let_def split: sum.splits)

lemma probe_darwin_keys:
  assumes "set (map fst info) \<inter> set (probe_fields ''darwin'') = {}"
  shows "map fst (fst (probe_darwin h info)) =
     map fst info @ take (leading_successes h (probe_commands ''darwin'')) (probe_fields ''darwin'')"
  using assms
  by (simp add: probe_darwin_def set_prop_keys probe_commands_def probe_fields_def
      leading_successes_def succeeds_def Let_def split: sum.splits)

lemma universal_fresh: "set universal_fields \<inter> set (probe_fields p) = {}"
  by (simp add: universal_fields_def probe_fields_def)

lemma getSystemInfo_platform:
  "fst (getSystemInfo h) =
     (if os_platform h = ''win32'' then fst (probe_win32 h (universal_info h))
      else if os_platform h = ''linux'' then fst (probe_linux h (universal_info h))
      else if os_platform h = ''darwin'' then fst (probe_darwin h (universal_info h))
      else universal_info h)"
  by (simp add: getSystemInfo_def Let_def split: prod.splits)

lemma getSystemInfo_keys:
  "map fst (fst (getSystemInfo h)) =
     universal_fields @
     take (leading_successes h (probe_commands (os_platform h))) (probe_fields (os_platform h))"
proof -
  have fresh: "set (map fst (universal_info h)) \<inter> set (probe_fields p) = {}" for p
    by (simp only: universal_keys universal_fresh)
  consider "os_platform h = ''win32''" | "os_platform h = ''linux''" | "os_platform h = ''darwin''"
    | "os_platform h \<noteq> ''win32''" "os_platform h \<noteq> ''linux''" "os_platform h \<noteq> ''darwin''"
    by blast
  then show ?thesis
  proof cases
    case 1
    then show ?thesis
      by (simp add: getSystemInfo_platform probe_win32_keys [OF fresh] universal_keys)
  next
    case 2
    then show ?thesis
      by (simp add: getSystemInfo_platform probe_linux_keys [OF fresh] universal_keys)
  next
    case 3
    then show ?thesis
      by (simp add: getSystemInfo_platform probe_darwin_keys [OF fresh] universal_keys)
  next
    case 4
    then show ?thesis
      by (simp add: getSystemInfo_platform universal_keys probe_fields_def)
  qed
qed

lemma probe_win32_extends:
  assumes "set (map fst info) \<inter> set (probe_fields ''win32'') = {}"
  shows "take (length info) (fst (probe_win32 h info)) = info"
  using assms
  by (simp add: probe_win32_def set_prop_new probe_fields_def Let_def split: sum.splits)

lemma probe_linux_extends:
  assumes "set (map fst info) \<inter> set (probe_fields ''linux'') = {}"
  shows "take (length info) (fst (probe_linux h info)) = info"
  using assms
  by (simp add: probe_linux_def set_prop_new probe_fields_def Let_def split: sum.splits)

lemma probe_darwin_extends:
  assumes "set (map fst info) \<inter> set (probe_fields ''darwin'') = {}"
  shows "take (length info) (fst (probe_darwin h info)) = info"
  using assms
  by (simp add: probe_darwin_def set_prop_new probe_fields_def Let_def split: sum.splits)

lemma length_universal_info: "length (universal_info h) = 10"
  by (simp add: universal_info_def)

lemma universal_prefix: "take 10 (fst (getSystemInfo h)) = universal_info h"
proof -
  have fresh: "set (map fst (universal_info h)) \<inter> set (probe_fields p) = {}" for p
    by (simp only: universal_keys universal_fresh)
  show ?thesis
    using probe_win32_extends [OF fresh, of h] probe_linux_extends [OF fresh, of h]
      probe_darwin_extends [OF fresh, of h]
    by (simp add: getSystemInfo_platform length_universal_info)
qed

section \<open>The digest of an example fingerprint, computed step by step\<close>

text \<open>Rules that evaluate the hash on numerals and keep every word below \<open>2\<^sup>3\<^sup>2\<close>.\<close>

lemma upt_8: "[0 ..< 8] = [0, 1, 2, 3, 4, 5, 6, 7]"
  by (simp add: upt_rec)

lemma replicate_numeral_Cons: "replicate (numeral n) x = x # replicate (pred_numeral n) x"
  by (simp add: numeral_eq_Suc)

lemma rotr_eval: "rotr n x = word_of_nat (unat (drop_bit n x OR push_bit (32 - n) x))"
  by (simp add: rotr_def)

lemma schedule_eval:
  "schedule (numeral n) ws =
     schedule (pred_numeral n)
       (ws @ [word_of_nat (unat (sigma1 (ws ! (length ws - 2)) + ws ! (length ws - 7)
                + sigma0 (ws ! (length ws - 15)) + ws ! (length ws - 16)))])"
  by (simp add: numeral_eq_Suc)

lemma sha_round_eval:
  "sha_round (k, w) (a, b, c, d, e, f, g, h) =
     (word_of_nat (unat (h + Sigma1 e + Ch e f g + k + w + (Sigma0 a + Maj a b c))),
      a, b, c, word_of_nat (unat (d + (h + Sigma1 e + Ch e f g + k + w))), e, f, g)"
  by (simp add: sha_round_def Let_def)

lemmas sha_eval =
  sha_compress_def K256_def blocks_of.simps be32_def schedule_eval sha_round_eval rotr_eval
  Sigma0_def Sigma1_def sigma0_def sigma1_def Ch_def Maj_def


text \<open>The fingerprint of \<open>linux_host\<close>: the first Linux command throws, so only the
  universal fields are collected.\<close>

lemma linux_probe: "probe_linux linux_host info = (info, [Exec cat_product_uuid])"
  unfolding probe_linux_def linux_host_def by simp

lemma linux_macs: "getNetworkMACs linux_host = [''02:42:ac:11:00:02'', ''52:54:00:12:34:56'']"
  unfolding getNetworkMACs_def linux_host_def by simp

lemma linux_fingerprint:
  "fst (getSystemInfo linux_host) =
     [(''platform'', JStr ''linux''), (''release'', JStr ''6.1.0''), (''type'', JStr ''Linux''),
      (''arch'', JStr ''x64''), (''cpus'', JNum 0), (''cpuModel'', JStr []),
      (''totalMemory'', JNum 8589934592), (''hostname'', JStr ''box''),
      (''networkInterfaces'', JArr [JStr ''02:42:ac:11:00:02'', JStr ''52:54:00:12:34:56'']),
      (''homedir'', JStr ''/home/user'')]"
proof -
  have "os_platform linux_host = ''linux''"
    unfolding linux_host_def by simp
  then have "fst (getSystemInfo linux_host) = universal_info linux_host"
    by (simp add: getSystemInfo_platform linux_probe)
  also have "\<dots> = [(''platform'', JStr ''linux''), (''release'', JStr ''6.1.0''), (''type'', JStr ''Linux''),
      (''arch'', JStr ''x64''), (''cpus'', JNum 0), (''cpuModel'', JStr []),
      (''totalMemory'', JNum 8589934592), (''hostname'', JStr ''box''),
      (''networkInterfaces'', JArr [JStr ''02:42:ac:11:00:02'', JStr ''52:54:00:12:34:56'']),
      (''homedir'', JStr ''/home/user'')]"
    unfolding universal_info_def linux_macs
    unfolding linux_host_def by (simp add: or_empty_def nth_opt_def)
  finally show ?thesis .
qed

lemma linux_fingerprint_json:
  "JSON_stringify (JObj (fst (getSystemInfo linux_host))) = linux_canonical"
  unfolding linux_fingerprint linux_canonical_def
  by (simp add: join_def json_quote_def json_escape_def show_int_def to_radix.simps digit_char_def)

lemma linux_blocks:
  "blocks_of 64 (sha_pad (utf8 linux_canonical)) = [linux_block_1, linux_block_2, linux_block_3, linux_block_4]"
  unfolding linux_canonical_def linux_block_1_def linux_block_2_def linux_block_3_def linux_block_4_def
  by (simp add: sha_pad_def utf8_def utf8_char_def be64_def upt_8 replicate_numeral_Cons
      blocks_of.simps)

lemma linux_compress_1:
  "sha_compress sha_init linux_block_1 =
     (445373296, 1415450240, 1889721455, 4287678653, 3742688834, 703932100, 606991850, 295009667)"
  unfolding linux_block_1_def sha_init_def by (simp add: sha_eval)

lemma linux_compress_2:
  "sha_compress
     (445373296, 1415450240, 1889721455, 4287678653, 3742688834, 703932100, 606991850, 295009667)
     linux_block_2 =
     (813225839, 3562064288, 715723418, 43251325, 3969403884, 756311062, 702668261, 2319016965)"
  unfolding linux_block_2_def by (simp add: sha_eval)

lemma linux_compress_3:
  "sha_compress
     (813225839, 3562064288, 715723418, 43251325, 3969403884, 756311062, 702668261, 2319016965)
     linux_block_3 =
     (893948554, 1195644488, 1206921352, 3424192516, 2600393557, 3280420907, 4142366682, 1669227189)"
  unfolding linux_block_3_def by (simp add: sha_eval)

lemma linux_compress_4:
  "sha_compress
     (893948554, 1195644488, 1206921352, 3424192516, 2600393557, 3280420907, 4142366682, 1669227189)
     linux_block_4 =
     (1633923341, 4050024603, 4059233600, 2781191673, 532923446, 4043805899, 1042100511, 1962854021)"
  unfolding linux_block_4_def by (simp add: sha_eval)

lemma linux_digest:
  "fresh_digest linux_host = ''6163b10df166789bf1f2fd40a5c59df91fc3c436f10794cb3e1d311f74fec685''"
  unfolding fresh_digest_def hashString_def sha256_def linux_fingerprint_json linux_blocks
  by (simp add: linux_compress_1 linux_compress_2 linux_compress_3 linux_compress_4 digest_hex_def hex_w32_def hex_byte_def hex_digit_def upt_4)


lemma linux_platform: "os_platform linux_host = ''linux''"
  unfolding linux_host_def by simp

lemma linux_calls:
  "snd (getSystemInfo linux_host) =
     universal_calls @
     [OsCall ''platform'', OsCall ''platform'', Exec cat_product_uuid, OsCall ''platform'']"
  by (simp add: getSystemInfo_def Let_def linux_platform linux_probe)



section \<open>Claims about \<open>generateID\<close> and \<open>verifyID\<close>\<close>


text \<open>
  C1, as stated, fails on two states of the storage file: an existing empty file is
  returned as the identifier, the empty string, and an existing file with the content
  \<open>abc123\<close> whose reading throws is not returned; a digest is computed instead.
\<close>

theorem generateID_raw_content_counterexample:
  "existsSync world_empty_file (storageFile linux_generator) \<and>
   readFileSync world_empty_file (storageFile linux_generator) = Inr [] \<and>
   fst (generateID linux_generator linux_host world_empty_file) = [] \<and>
   \<not> is_digest (fst (generateID linux_generator linux_host world_empty_file)) \<and>
   existsSync world_unreadable (storageFile linux_generator) \<and>
   map_option content (files world_unreadable (storageFile linux_generator)) = Some ''abc123'' \<and>
   fst (generateID linux_generator linux_host world_unreadable) \<noteq> ''abc123''"
proof -
  have r: "readFileSync world_empty_file (storageFile linux_generator) = Inr []"
    by (simp add: readFileSync_def world_empty_file_def stored_file_def linux_storageFile)
  have u: "readFileSync world_unreadable (storageFile linux_generator) = Inl FsError"
    by (simp add: readFileSync_def world_unreadable_def stored_file_def linux_storageFile)
  have "is_digest (fst (generateID linux_generator linux_host world_unreadable))"
    by (simp add: generateID_fresh [OF u] fresh_digest_is_digest)
  then have "fst (generateID linux_generator linux_host world_unreadable) \<noteq> ''abc123''"
    by (auto simp: is_digest_def)
  moreover have "existsSync world_unreadable (storageFile linux_generator)"
    by (simp add: existsSync_def world_unreadable_def stored_file_def linux_storageFile)
  moreover have "map_option content (files world_unreadable (storageFile linux_generator)) = Some ''abc123''"
    by (simp add: world_unreadable_def stored_file_def linux_storageFile)
  moreover have "fst (generateID linux_generator linux_host world_empty_file) = []"
    by (simp add: generateID_stored [OF r])
  moreover have "\<not> is_digest []"
    by (simp add: is_digest_def)
  ultimately show ?thesis
    using r read_ok_exists [OF r] by simp
qed

text \<open>
  C1, amended: when the storage file is read with a non-empty content, \<open>generateID\<close>
  returns exactly that content and collects nothing (the trace is unchanged); when the file
  is absent, or reading it throws, the digest of a freshly collected fingerprint is returned.
\<close>

theorem generateID_stored_or_fresh:
  assumes "readFileSync w (storageFile g) = Inr c" and "c \<noteq> []"
    and "readFileSync w' (storageFile g) = Inl e"
  shows "fst (generateID g h w) = c \<and> trace (snd (snd (generateID g h w))) = trace w \<and>
         fst (generateID g h w') = fresh_digest h \<and> is_digest (fst (generateID g h w'))"
  using assms
  by (simp add: generateID_stored generateID_fresh [OF assms(3)] fresh_digest_is_digest)

theorem generateID_stored_or_fresh_witness:
  "readFileSync world_stored (storageFile linux_generator) = Inr ''abc123'' \<and>
   readFileSync world_absent (storageFile linux_generator) = Inl FsError \<and>
   fst (generateID linux_generator linux_host world_stored) = ''abc123'' \<and>
   trace (snd (snd (generateID linux_generator linux_host world_stored))) = [] \<and>
   fst (generateID linux_generator linux_host world_absent) = fresh_digest linux_host \<and>
   is_digest (fst (generateID linux_generator linux_host world_absent))"
proof -
  have r: "readFileSync world_stored (storageFile linux_generator) = Inr ''abc123''"
    by (simp add: readFileSync_def world_stored_def stored_file_def linux_storageFile)
  have a: "readFileSync world_absent (storageFile linux_generator) = Inl FsError"
    by (simp add: readFileSync_def world_absent_def)
  have t: "trace world_stored = []"
    by (simp add: world_stored_def)
  show ?thesis
    using generateID_stored_or_fresh [OF r _ a, of linux_host] r a t
    by (simp add: fresh_digest_is_digest)
qed




text \<open>
  C5: read and write failures are caught.  When nothing can be read from the storage file
  (it is absent or reading it throws), \<open>generateID\<close> returns the fresh digest, also when
  writing the file throws; the files are then left as they were.
\<close>

theorem generateID_survives_fs_failures:
  assumes "readFileSync w (storageFile g) = Inl e"
  shows "fst (generateID g h w) = fresh_digest h \<and> is_digest (fst (generateID g h w)) \<and>
         userID (fst (snd (generateID g h w))) = Some (fresh_digest h) \<and>
         (write_fails w (storageFile g) \<longrightarrow> files (snd (snd (generateID g h w))) = files w)"
proof -
  have "userID (fst (snd (generateID g h w))) = Some (fresh_digest h)"
    using generateID_computed [OF assms, of h] by auto
  then show ?thesis
    using generateID_fresh [OF assms, of h] fresh_digest_is_digest [of h]
      generateID_write_failed [OF assms, of h]
    by simp
qed

theorem generateID_survives_fs_failures_witness:
  "existsSync world_broken (storageFile linux_generator) \<and>
   readFileSync world_broken (storageFile linux_generator) = Inl FsError \<and>
   write_fails world_broken (storageFile linux_generator) \<and>
   fst (generateID linux_generator linux_host world_broken) = fresh_digest linux_host \<and>
   is_digest (fst (generateID linux_generator linux_host world_broken)) \<and>
   files (snd (snd (generateID linux_generator linux_host world_broken))) = files world_broken"
proof -
  have r: "readFileSync world_broken (storageFile linux_generator) = Inl FsError"
    by (simp add: readFileSync_def world_broken_def stored_file_def linux_storageFile)
  have x: "existsSync world_broken (storageFile linux_generator)"
    by (simp add: existsSync_def world_broken_def stored_file_def linux_storageFile)
  have f: "write_fails world_broken (storageFile linux_generator)"
    by (simp add: world_broken_def)
  show ?thesis
    using generateID_survives_fs_failures [OF r, of linux_host] r x f
    by (simp add: fresh_digest_is_digest)
qed

text \<open>
  C6: two calls of \<open>generateID\<close> in sequence on a host return the same string, whatever the
  storage file was before the first call; in particular when the first call has persisted
  its identifier and the file has not been deleted.
\<close>

theorem generateID_twice:
  "fst (generateID (fst (snd (generateID g h w))) h (snd (snd (generateID g h w)))) =
   fst (generateID g h w)"
proof (cases "readFileSync w (storageFile g)")
  case (Inr c)
  then have first: "generateID g h w = (c, g\<lparr>userID := Some c\<rparr>, w)"
    by (rule generateID_stored)
  have "readFileSync w (storageFile (g\<lparr>userID := Some c\<rparr>)) = Inr c"
    using Inr by simp
  then have "fst (generateID (g\<lparr>userID := Some c\<rparr>) h w) = c"
    by (simp add: generateID_stored)
  with first show ?thesis
    by simp
next
  case (Inl e)
  let ?g1 = "fst (snd (generateID g h w))"
  let ?w1 = "snd (snd (generateID g h w))"
  have g1: "storageFile ?g1 = storageFile g"
    by (rule generateID_storageFile)
  have first: "fst (generateID g h w) = fresh_digest h"
    using Inl by (rule generateID_fresh)
  have flags: "read_fails ?w1 = read_fails w"
    using generateID_flags [of g h w] by simp
  show ?thesis
  proof (cases "readFileSync ?w1 (storageFile ?g1)")
    case second: (Inl e')
    then show ?thesis
      by (simp add: generateID_fresh first)
  next
    case second: (Inr c)
    then have readable: "\<not> read_fails w (storageFile g)" and stored: "existsSync ?w1 (storageFile g)"
      using flags g1 by (auto simp: read_ok_iff existsSync_def)
    with Inl have absent: "files w (storageFile g) = None"
      by (auto simp: read_error_cases)
    have "\<not> write_fails w (storageFile g)"
    proof
      assume "write_fails w (storageFile g)"
      with Inl have "files ?w1 = files w"
        by (rule generateID_write_failed)
      with absent stored show False
        by (simp add: existsSync_def)
    qed
    with Inl have "files ?w1 (storageFile g) = Some \<lparr>content = fresh_digest h, mode = 384\<rparr>"
      using absent by (simp add: generateID_write_ok)
    with second g1 have "c = fresh_digest h"
      by (auto simp: read_ok_iff)
    with second show ?thesis
      by (simp add: generateID_stored first)
  qed
qed

text \<open>
  C7, as stated, fails: the storage file exists with the non-empty content \<open>abc123\<close> and
  reading it throws; \<open>generateID\<close> logs the error, runs the introspection calls and the
  first Linux command, and overwrites the content with the digest.
\<close>

theorem generateID_unreadable_overwrites_counterexample:
  "existsSync world_unreadable (storageFile linux_generator) \<and>
   map_option content (files world_unreadable (storageFile linux_generator)) = Some ''abc123'' \<and>
   map_option content
     (files (snd (snd (generateID linux_generator linux_host world_unreadable)))
        (storageFile linux_generator)) =
     Some ''6163b10df166789bf1f2fd40a5c59df91fc3c436f10794cb3e1d311f74fec685'' \<and>
   trace world_unreadable = [] \<and>
   trace (snd (snd (generateID linux_generator linux_host world_unreadable))) =
     ConsoleError ''Error leyendo ID almacenado:'' # universal_calls @
     [OsCall ''platform'', OsCall ''platform'', Exec cat_product_uuid, OsCall ''platform'']"
proof -
  have x: "existsSync world_unreadable (storageFile linux_generator)"
    by (simp add: existsSync_def world_unreadable_def stored_file_def linux_storageFile)
  have c: "map_option content (files world_unreadable (storageFile linux_generator)) = Some ''abc123''"
    by (simp add: world_unreadable_def stored_file_def linux_storageFile)
  have t: "trace world_unreadable = []"
    by (simp add: world_unreadable_def)
  have wf: "\<not> write_fails world_unreadable (storageFile linux_generator)"
    by (simp add: world_unreadable_def)
  have r: "readFileSync world_unreadable (storageFile linux_generator) = Inl FsError"
    by (simp add: readFileSync_def world_unreadable_def stored_file_def linux_storageFile)
  have "files (snd (snd (generateID linux_generator linux_host world_unreadable)))
      (storageFile linux_generator) =
      Some (\<lparr>content = ''abc123'', mode = 384\<rparr>\<lparr>content := fresh_digest linux_host\<rparr>)"
    using generateID_write_ok [OF r wf, of linux_host]
    by (simp add: world_unreadable_def stored_file_def linux_storageFile)
  then have after: "map_option content
      (files (snd (snd (generateID linux_generator linux_host world_unreadable)))
        (storageFile linux_generator)) = Some ''6163b10df166789bf1f2fd40a5c59df91fc3c436f10794cb3e1d311f74fec685''"
    by (simp add: linux_digest)
  have "generateID linux_generator linux_host world_unreadable =
      (fresh_digest linux_host, linux_generator\<lparr>userID := Some (fresh_digest linux_host)\<rparr>,
       case writeFileSync
              ((log_error ''Error leyendo ID almacenado:'' world_unreadable)
                 \<lparr>trace := trace (log_error ''Error leyendo ID almacenado:'' world_unreadable)
                    @ snd (getSystemInfo linux_host)\<rparr>)
              (storageFile linux_generator) (fresh_digest linux_host) 384 of
         Inl e' \<Rightarrow> log_error ''Error al guardar ID en archivo:''
              ((log_error ''Error leyendo ID almacenado:'' world_unreadable)
                 \<lparr>trace := trace (log_error ''Error leyendo ID almacenado:'' world_unreadable)
                    @ snd (getSystemInfo linux_host)\<rparr>)
       | Inr w3 \<Rightarrow> w3)"
    using x r
    by (simp add: generateID_def fresh_digest_def Let_def split: prod.splits sum.splits)
  then have "trace (snd (snd (generateID linux_generator linux_host world_unreadable))) =
      ConsoleError ''Error leyendo ID almacenado:'' # snd (getSystemInfo linux_host)"
    using wf t by (simp add: writeFileSync_def log_error_def)
  with x c t after show ?thesis
    by (simp add: linux_calls)
qed

text \<open>
  C7, amended: when a non-empty value is read from the storage file (it exists and reading
  it succeeds), \<open>generateID\<close> returns it and
  leaves the world as it was: the files with their contents and modes, and the trace, to
  which no introspection call, command or log entry is added.
\<close>

theorem generateID_stored_no_effect:
  assumes "readFileSync w (storageFile g) = Inr c" and "c \<noteq> []"
  shows "fst (generateID g h w) = c \<and> snd (snd (generateID g h w)) = w \<and>
         files (snd (snd (generateID g h w))) = files w \<and>
         trace (snd (snd (generateID g h w))) = trace w"
  using assms by (simp add: generateID_stored)

theorem generateID_stored_no_effect_witness:
  "readFileSync world_stored (storageFile linux_generator) = Inr ''abc123'' \<and>
   fst (generateID linux_generator linux_host world_stored) = ''abc123'' \<and>
   snd (snd (generateID linux_generator linux_host world_stored)) = world_stored"
proof -
  have r: "readFileSync world_stored (storageFile linux_generator) = Inr ''abc123''"
    by (simp add: readFileSync_def world_stored_def stored_file_def linux_storageFile)
  show ?thesis
    using generateID_stored_no_effect [OF r, of linux_host] r by simp
qed

text \<open>
  C8, as stated, fails: the storage file exists with the non-empty content \<open>abc123\<close>, reading
  it throws, and \<open>verifyID\<close> returns false.
\<close>

theorem verifyID_unreadable_counterexample:
  "existsSync world_unreadable (storageFile linux_generator) \<and>
   map_option content (files world_unreadable (storageFile linux_generator)) = Some ''abc123'' \<and>
   fst (verifyID linux_generator world_unreadable) = False"
  by (simp add: verifyID_def existsSync_def readFileSync_def world_unreadable_def
      stored_file_def linux_storageFile)

text \<open>
  C8, amended: \<open>verifyID\<close> returns false when the storage file does not exist, when reading
  it throws, and when its content is empty; it returns true otherwise, whatever the content.
\<close>

theorem verifyID_result:
  "fst (verifyID g w) =
     (case files w (storageFile g) of
        None \<Rightarrow> False
      | Some f \<Rightarrow> \<not> read_fails w (storageFile g) \<and> content f \<noteq> [])"
  by (simp add: verifyID_def existsSync_def readFileSync_def split: option.splits)

section \<open>Claims about the fingerprint\<close>

text \<open>
  C10: collecting the universal fields cannot throw: the fingerprint always starts with the
  ten universal fields, with the values the host reports; when \<open>os.cpus()\<close> is empty,
  \<open>cpus\<close> is 0 and \<open>cpuModel\<close> is the empty string.
\<close>

theorem universal_fields_always_present:
  "take 10 (fst (getSystemInfo h)) = universal_info h \<and>
   map fst (universal_info h) = universal_fields \<and>
   (os_cpus h = [] \<longrightarrow>
      map_of (fst (getSystemInfo h)) ''cpus'' = Some (JNum 0) \<and>
      map_of (fst (getSystemInfo h)) ''cpuModel'' = Some (JStr []))"
proof -
  have "fst (getSystemInfo h) = take 10 (fst (getSystemInfo h)) @ drop 10 (fst (getSystemInfo h))"
    by simp
  then obtain rest where split: "fst (getSystemInfo h) = universal_info h @ rest"
    by (simp only: universal_prefix)
  have cpus: "map_of (universal_info h) ''cpus'' = Some (JNum (int (length (os_cpus h))))"
    by (simp add: universal_info_def)
  have cpuModel: "map_of (universal_info h) ''cpuModel'' =
      Some (JStr (or_empty (map_option model (nth_opt (os_cpus h) 0))))"
    by (simp add: universal_info_def)
  have empty: "or_empty (map_option model (nth_opt (os_cpus h) 0)) = []" if "os_cpus h = []"
    using that by (simp add: or_empty_def nth_opt_def)
  have "map_of (fst (getSystemInfo h)) ''cpus'' = Some (JNum 0) \<and>
        map_of (fst (getSystemInfo h)) ''cpuModel'' = Some (JStr [])" if "os_cpus h = []"
    using cpus cpuModel empty [OF that] that
    by (simp add: split map_add_def)
  then have "os_cpus h = [] \<longrightarrow>
      map_of (fst (getSystemInfo h)) ''cpus'' = Some (JNum 0) \<and>
      map_of (fst (getSystemInfo h)) ''cpuModel'' = Some (JStr [])"
    by blast
  with universal_prefix [of h] universal_keys [of h] show ?thesis
    by blast
qed

theorem universal_fields_always_present_witness:
  "os_cpus linux_host = [] \<and>
   map_of (fst (getSystemInfo linux_host)) ''cpus'' = Some (JNum 0) \<and>
   map_of (fst (getSystemInfo linux_host)) ''cpuModel'' = Some (JStr [])"
proof -
  have "os_cpus linux_host = []"
    unfolding linux_host_def by simp
  then show ?thesis
    using universal_fields_always_present [of linux_host] by simp
qed

lemma linux_host_probes:
  "os_platform linux_host = ''linux'' \<and> \<not> succeeds linux_host cat_product_uuid \<and>
   succeeds linux_host cat_board_serial \<and> succeeds linux_host grep_cpuinfo \<and>
   succeeds linux_host lsblk_root"
  unfolding linux_host_def succeeds_def
  by (simp add: cat_product_uuid_def cat_board_serial_def grep_cpuinfo_def lsblk_root_def)

lemma linux_host_keys: "map fst (fst (getSystemInfo linux_host)) = universal_fields"
  using linux_host_probes
  by (simp add: getSystemInfo_keys leading_successes_def probe_commands_def)

text \<open>
  C3, as stated, fails: on a Linux host where only the first command (the DMI product UUID)
  throws and the three others would answer, the fingerprint holds the universal fields
  alone; \<open>motherboardSerial\<close>, \<open>cpuDetails\<close> and \<open>mainDiskUUID\<close> are missing too.
\<close>

theorem single_probe_failure_counterexample:
  "os_platform linux_host = ''linux'' \<and> \<not> succeeds linux_host cat_product_uuid \<and>
   succeeds linux_host cat_board_serial \<and> succeeds linux_host grep_cpuinfo \<and>
   succeeds linux_host lsblk_root \<and>
   map fst (fst (getSystemInfo linux_host)) = universal_fields \<and>
   ''motherboardSerial'' \<notin> set (map fst (fst (getSystemInfo linux_host))) \<and>
   ''cpuDetails'' \<notin> set (map fst (fst (getSystemInfo linux_host))) \<and>
   ''mainDiskUUID'' \<notin> set (map fst (fst (getSystemInfo linux_host)))"
  using linux_host_probes
  by (simp add: linux_host_keys universal_fields_def)

text \<open>
  C3, amended: when a platform command throws, \<open>generateID\<close> (with nothing stored) still
  returns the digest of the fingerprint, 64 lower-case hexadecimal characters; the
  fingerprint holds the universal fields and the fields of the platform's commands that ran
  before the first one that threw, and omits the field of that command and of every later
  command of the platform.
\<close>

theorem probe_failure_truncates_fingerprint:
  assumes "readFileSync w (storageFile g) = Inl e"
  shows "fst (generateID g h w) = hashString (JSON_stringify (JObj (fst (getSystemInfo h)))) \<and>
         is_digest (fst (generateID g h w)) \<and>
         map fst (fst (getSystemInfo h)) =
           universal_fields @
           take (leading_successes h (probe_commands (os_platform h)))
                (probe_fields (os_platform h))"
  using generateID_fresh [OF assms, of h] getSystemInfo_keys [of h] hashString_is_digest
  by (simp add: fresh_digest_def)

theorem probe_failure_truncates_fingerprint_witness:
  "readFileSync world_absent (storageFile linux_generator) = Inl FsError \<and>
   is_digest (fst (generateID linux_generator linux_host world_absent)) \<and>
   leading_successes linux_host (probe_commands (os_platform linux_host)) = 0 \<and>
   map fst (fst (getSystemInfo linux_host)) =
     universal_fields @ take 0 (probe_fields (os_platform linux_host))"
proof -
  have a: "readFileSync world_absent (storageFile linux_generator) = Inl FsError"
    by (simp add: readFileSync_def world_absent_def)
  have z: "leading_successes linux_host (probe_commands (os_platform linux_host)) = 0"
    using linux_host_probes by (simp add: leading_successes_def probe_commands_def)
  show ?thesis
    using probe_failure_truncates_fingerprint [OF a, of linux_host] a z
    by (simp add: hashString_is_digest)
qed

text \<open>The list of addresses is built interface by interface; flattened, it is one filter.\<close>

lemma physical_macs_flat:
  "concat (map (\<lambda>(iface, addrs). map mac (filter P addrs)) ifs) =
   map mac (filter P (concat (map snd ifs)))"
  by (induction ifs) auto

lemma getNetworkMACs_mset:
  assumes "mset (concat (map snd (os_networkInterfaces h))) =
           mset (concat (map snd (os_networkInterfaces h')))"
  shows "getNetworkMACs h = getNetworkMACs h'"
proof -
  let ?P = "\<lambda>details. \<not> internal details \<and> mac details \<noteq> ''00:00:00:00:00:00''"
  have "mset (map mac (filter ?P (concat (map snd (os_networkInterfaces h))))) =
        mset (map mac (filter ?P (concat (map snd (os_networkInterfaces h')))))"
    using assms by (simp only: mset_map mset_filter)
  then have "sort (map mac (filter ?P (concat (map snd (os_networkInterfaces h))))) =
             sort (map mac (filter ?P (concat (map snd (os_networkInterfaces h')))))"
    by (intro properties_for_sort) simp_all
  then show ?thesis
    by (simp only: getNetworkMACs_def physical_macs_flat)
qed

lemma sorted_getNetworkMACs: "sorted (getNetworkMACs h)"
  by (simp add: getNetworkMACs_def)

lemma probes_ignore_interfaces:
  "probe_win32 (h\<lparr>os_networkInterfaces := ifs\<rparr>) info = probe_win32 h info"
  "probe_linux (h\<lparr>os_networkInterfaces := ifs\<rparr>) info = probe_linux h info"
  "probe_darwin (h\<lparr>os_networkInterfaces := ifs\<rparr>) info = probe_darwin h info"
  by (simp_all add: probe_win32_def probe_linux_def probe_darwin_def cong: sum.case_cong)

lemma universal_info_interfaces:
  assumes "getNetworkMACs (h\<lparr>os_networkInterfaces := ifs\<rparr>) =
           getNetworkMACs (h\<lparr>os_networkInterfaces := ifs'\<rparr>)"
  shows "universal_info (h\<lparr>os_networkInterfaces := ifs\<rparr>) =
         universal_info (h\<lparr>os_networkInterfaces := ifs'\<rparr>)"
  using assms by (simp add: universal_info_def)

lemma getSystemInfo_interfaces:
  assumes "getNetworkMACs (h\<lparr>os_networkInterfaces := ifs\<rparr>) =
           getNetworkMACs (h\<lparr>os_networkInterfaces := ifs'\<rparr>)"
  shows "getSystemInfo (h\<lparr>os_networkInterfaces := ifs\<rparr>) =
         getSystemInfo (h\<lparr>os_networkInterfaces := ifs'\<rparr>)"
  by (simp add: getSystemInfo_def probes_ignore_interfaces universal_info_interfaces [OF assms]
      Let_def cong: if_cong)

text \<open>
  C4: the MAC list depends only on the address entries as a multiset, not on the order in
  which interfaces and addresses are enumerated; it is sorted, and the fingerprint, its
  canonical string and its digest are the same for both orders.
\<close>

theorem enumeration_order_irrelevant:
  assumes "mset (concat (map snd ifs)) = mset (concat (map snd ifs'))"
  shows "getNetworkMACs (h\<lparr>os_networkInterfaces := ifs\<rparr>) =
           getNetworkMACs (h\<lparr>os_networkInterfaces := ifs'\<rparr>) \<and>
         sorted (getNetworkMACs (h\<lparr>os_networkInterfaces := ifs\<rparr>)) \<and>
         JSON_stringify (JObj (fst (getSystemInfo (h\<lparr>os_networkInterfaces := ifs\<rparr>)))) =
           JSON_stringify (JObj (fst (getSystemInfo (h\<lparr>os_networkInterfaces := ifs'\<rparr>)))) \<and>
         fresh_digest (h\<lparr>os_networkInterfaces := ifs\<rparr>) =
           fresh_digest (h\<lparr>os_networkInterfaces := ifs'\<rparr>)"
proof -
  have macs: "getNetworkMACs (h\<lparr>os_networkInterfaces := ifs\<rparr>) =
      getNetworkMACs (h\<lparr>os_networkInterfaces := ifs'\<rparr>)"
    using assms by (intro getNetworkMACs_mset) simp
  from getSystemInfo_interfaces [OF macs] macs show ?thesis
    by (simp add: fresh_digest_def sorted_getNetworkMACs)
qed

theorem enumeration_order_irrelevant_witness:
  "mset (concat (map snd (os_networkInterfaces linux_host))) =
     mset (concat (map snd (rev (os_networkInterfaces linux_host)))) \<and>
   os_networkInterfaces linux_host \<noteq> rev (os_networkInterfaces linux_host) \<and>
   getNetworkMACs (linux_host\<lparr>os_networkInterfaces := os_networkInterfaces linux_host\<rparr>) =
     getNetworkMACs (linux_host\<lparr>os_networkInterfaces := rev (os_networkInterfaces linux_host)\<rparr>) \<and>
   fresh_digest (linux_host\<lparr>os_networkInterfaces := os_networkInterfaces linux_host\<rparr>) =
     fresh_digest (linux_host\<lparr>os_networkInterfaces := rev (os_networkInterfaces linux_host)\<rparr>)"
proof -
  have m: "mset (concat (map snd (os_networkInterfaces linux_host))) =
      mset (concat (map snd (rev (os_networkInterfaces linux_host))))"
    unfolding linux_host_def by (simp add: add_mset_commute)
  have d: "os_networkInterfaces linux_host \<noteq> rev (os_networkInterfaces linux_host)"
    unfolding linux_host_def by simp
  show ?thesis
    using enumeration_order_irrelevant [OF m, of linux_host] m d by simp
qed

section \<open>Claims about \<open>GenerateID\<close>\<close>

lemma js_floor_product_zero: "js_floor_product 0 n = 0"
  by (simp add: js_floor_product_def)

lemma random_chars_numeral:
  "random_chars E chars k (numeral n) =
     charAt chars (nat (js_floor_product (math_random E k) (int (length chars))))
       @ random_chars E chars (Suc k) (pred_numeral n)"
  by (simp add: numeral_eq_Suc)

lemma timestamp_base36: "to_radix 36 1730000000000 = ''m2r1bz7k''"
  by (simp add: to_radix.simps digit_char_def)

text \<open>With the constant entropy every call of \<open>generate\<close> gives the same identifier, for
  the initial \<open>maxLength\<close> 8 and for the extended one, 10.\<close>

lemma generate_constant:
  assumes "maxLength g = 8 \<or> maxLength g = 10" and "minLength g = 4"
  shows "fst (generate g constant_entropy default_options d) = ''aaaz7k''"
  using assms
  by (auto simp: generate_def constant_entropy_def default_options_def Let_def
      random_chars_numeral js_floor_product_zero timestamp_base36 charAt_def substring_def
      substring_from_def)

lemma exists_in_collection: "exists ''aaaz7k'' (JArr [JStr ''aaaz7k'']) ''id'' = Inr True"
  by (simp add: exists_def nth_opt_def)

lemma generate_reads_clock:
  "n_now (snd (generate g constant_entropy default_options d)) = Suc (n_now d)"
  by (simp add: generate_def constant_entropy_def default_options_def Let_def)

lemma attempt_loop_all_collide:
  assumes gen: "\<And>d. fst (generate g E options d) = ident"
    and now: "\<And>d. n_now (snd (generate g E options d)) = Suc (n_now d)"
    and found: "exists ident collection idField = Inr True"
  shows "attempts < 100 \<Longrightarrow>
         \<exists>d'. attempt_loop g E collection options idField attempts d = Inr (ident, 100, d')
              \<and> n_now d' = n_now d + (100 - attempts)"
proof (induction "99 - attempts" arbitrary: attempts d)
  case 0
  then have "attempts = 99" by simp
  then show ?case
    by (subst attempt_loop.simps) (simp add: gen now found)
next
  case (Suc n)
  then have less: "attempts + 1 < 100" and n: "n = 99 - (attempts + 1)"
    by simp_all
  from Suc.hyps(1) [OF n less]
  obtain d' where
    "attempt_loop g E collection options idField (attempts + 1) (snd (generate g E options d))
       = Inr (ident, 100, d')"
    and "n_now d' = n_now (snd (generate g E options d)) + (100 - (attempts + 1))"
    by blast
  with less show ?case
    by (subst attempt_loop.simps) (simp add: gen now found)
qed

text \<open>
  C9: \<open>generateUnique\<close> can return an identifier that is in the collection.  With entropy
  sources that answer the same at every call, all 100 attempts give \<open>aaaz7k\<close>, which the
  collection holds; \<open>maxLength\<close> is then raised to 10 and one more identifier is generated
  (the clock has been read 101 times) and returned unchecked: \<open>aaaz7k\<close> again.
\<close>

theorem generateUnique_returns_existing_id:
  "(case generateUnique (new_GenerateID None) constant_entropy (JArr [JStr ''aaaz7k''])
           default_options ''id'' no_draws of
      Inl e \<Rightarrow> False
    | Inr (newId, g', d') \<Rightarrow>
        newId = ''aaaz7k'' \<and> maxLength g' = 10 \<and> n_now d' = 101 \<and>
        exists newId (JArr [JStr ''aaaz7k'']) ''id'' = Inr True)"
proof -
  let ?g = "new_GenerateID None"
  have g: "maxLength ?g = 8" "minLength ?g = 4"
    by (simp_all add: new_GenerateID_def)
  have gen: "fst (generate ?g constant_entropy default_options d) = ''aaaz7k''" for d
    by (rule generate_constant) (simp_all add: g)
  obtain d' where loop:
    "attempt_loop ?g constant_entropy (JArr [JStr ''aaaz7k'']) default_options ''id'' 0 no_draws
       = Inr (''aaaz7k'', 100, d')"
    and clock: "n_now d' = 100"
    using attempt_loop_all_collide
      [OF gen generate_reads_clock exists_in_collection, of 0 no_draws]
    by (auto simp: no_draws_def)
  have "fst (generate (?g\<lparr>maxLength := maxLength ?g + 2\<rparr>) constant_entropy default_options d')
      = ''aaaz7k''"
    by (rule generate_constant) (simp_all add: g)
  with loop clock show ?thesis
    by (simp add: generateUnique_def Let_def g exists_in_collection generate_reads_clock)
qed

end
